theory Spec2Isabelle
  imports Main "HOL-Library.Word"
begin

section \<open>Go values used by the healthcheck package\<close>

text \<open>
  An \<open>error\<close> of Go is a value with an \<open>Error()\<close> string. The constructors are the
  ways the two source files build one: \<open>errors.New\<close> and \<open>errors.Wrapf\<close> of
  github.com/pkg/errors, \<open>fmt.Errorf\<close> with its format already applied, and the errors
  that the platform resolver returns from \<open>net.LookupIP\<close>. A nil error is \<open>None\<close>.
\<close>

datatype go_error =
    errors_New string
  | errors_Wrapf go_error string
  | fmt_Errorf string
  | net_DNSError string

fun Error :: "go_error \<Rightarrow> string" where
  "Error (errors_New m) = m"
| "Error (errors_Wrapf cause m) = m @ '': '' @ Error cause"
| "Error (fmt_Errorf m) = m"
| "Error (net_DNSError m) = m"

text \<open>
  \<open>Duration\<close> is a \<open>time.Duration\<close>: a signed 64-bit count of nanoseconds, compared as
  a signed number.
\<close>

type_synonym Duration = "64 word"

definition Second :: Duration where
  "Second = 1000000000"

text \<open>An \<open>IP\<close> is a \<open>net.IP\<close>: a slice of bytes, 4 of them for IPv4 and 16 for IPv6.\<close>

type_synonym IP = "8 word list"

section \<open>The DNS healthcheck: data\<close>

text \<open>
  \<open>Base\<close> is the configuration shared by every healthcheck type. Its declaration is not
  in dns.go; the fields are those dns.go reads and writes (\<open>Name\<close>, \<open>Description\<close>,
  \<open>Interval\<close>, \<open>OneOff\<close>, \<open>Source\<close>).
\<close>

record Base =
  Name :: string
  Description :: string
  Interval :: Duration
  OneOff :: bool
  Source :: string

text \<open>
  The field \<open>Domain\<close> of the configuration is \<open>Domain_name\<close> here: \<open>Domain\<close> is the
  domain of a relation in HOL.
\<close>

record DNSHealthcheckConfiguration =
  Base :: Base
  ExpectedIPs :: "IP list"
  Domain_name :: string

text \<open>
  A zap logger is modelled by the entries written through it: level, message and the
  string fields attached to the entry.
\<close>

datatype log_level = DebugLevel | InfoLevel | ErrorLevel

type_synonym log_entry = "log_level \<times> string \<times> (string \<times> string) list"

text \<open>
  \<open>Config\<close> is a pointer in the source. Nothing else holds it while a method of the
  healthcheck runs, so the configuration is a field of the record, and a method that has
  the pointer receiver \<open>h\<close> takes the record and returns it.
  \<open>Tick\<close> is the handle of a ticker, absent (\<open>None\<close>) until some scheduler sets it.
\<close>

record DNSHealthcheck =
  Logger :: "log_entry list"
  Config :: DNSHealthcheckConfiguration
  URL :: string
  Tick :: "nat option"

section \<open>Validation\<close>

text \<open>
  \<open>DNSHealthcheckConfiguration.Validate\<close>, dns.go lines 30 to 43. The method has a
  pointer receiver and assigns to none of its fields: the configuration is returned as it
  was received, next to the error.
\<close>

definition Validate :: "DNSHealthcheckConfiguration \<Rightarrow> go_error option \<times> DNSHealthcheckConfiguration" where
  "Validate config =
     (if Name (Base config) = [] then
        (Some (errors_New ''The healthcheck name is missing''), config)
      else if Domain_name config = [] then
        (Some (errors_New ''The healthcheck domain is missing''), config)
      else if \<not> OneOff (Base config) \<and> sint (Interval (Base config)) < sint (2 * Second) then
        (Some (errors_New ''The healthcheck interval should be greater than 2 second''), config)
      else (None, config))"

section \<open>IP addresses of the Go standard library\<close>

text \<open>
  \<open>net.IP.Equal\<close> and \<open>net.IP.String\<close> belong to the Go standard library, not to the
  repository. \<open>IP_Equal\<close> follows the library's function line by line: slices of the
  same length are compared byte by byte, and a 4-byte address equals the 16-byte address
  that is the prefix \<open>v4InV6Prefix\<close> followed by its four bytes.
\<close>

definition IPv4len :: nat where
  "IPv4len = 4"

definition IPv6len :: nat where
  "IPv6len = 16"

definition v4InV6Prefix :: IP where
  "v4InV6Prefix = [0, 0, 0, 0, 0, 0, 0, 0, 0, 0, 0xff, 0xff]"

definition IP_Equal :: "IP \<Rightarrow> IP \<Rightarrow> bool" where
  "IP_Equal ip x =
     (if length ip = length x then ip = x
      else if length ip = IPv4len \<and> length x = IPv6len then
        take 12 x = v4InV6Prefix \<and> ip = drop 12 x
      else if length ip = IPv6len \<and> length x = IPv4len then
        take 12 ip = v4InV6Prefix \<and> drop 12 ip = x
      else False)"

text \<open>
  \<open>IP_String\<close> gives the four forms that the library documents for \<open>net.IP.String\<close>:
  \<open><nil>\<close> for the empty slice, dotted decimal for an IPv4 or IPv4-mapped address, the
  IPv6 text form with the leftmost longest run of two or more zero groups written
  \<open>::\<close>, and \<open>?\<close> followed by the bytes in hexadecimal for any other length.
\<close>

definition hexDigit :: string where
  "hexDigit = ''0123456789abcdef''"

definition ubtoa :: "8 word \<Rightarrow> string" where
  "ubtoa v =
     (let n = unat v in
      if n < 10 then [hexDigit ! n]
      else if n < 100 then [hexDigit ! (n div 10), hexDigit ! (n mod 10)]
      else [hexDigit ! (n div 100), hexDigit ! (n div 10 mod 10), hexDigit ! (n mod 10)])"

definition To4 :: "IP \<Rightarrow> IP" where
  "To4 ip =
     (if length ip = IPv4len then ip
      else if length ip = IPv6len \<and> take 10 ip = replicate 10 0
              \<and> ip ! 10 = 0xff \<and> ip ! 11 = 0xff then drop 12 ip
      else [])"

fun hexString :: "IP \<Rightarrow> string" where
  "hexString [] = []"
| "hexString (b # bs) =
     hexDigit ! (unat b div 16) # hexDigit ! (unat b mod 16) # hexString bs"

fun groups :: "IP \<Rightarrow> nat list" where
  "groups (hi # lo # rest) = (unat hi * 256 + unat lo) # groups rest"
| "groups _ = []"

definition appendHex :: "nat \<Rightarrow> string" where
  "appendHex x =
     (if x = 0 then ''0''
      else dropWhile (\<lambda>c. c = CHR ''0'')
             [hexDigit ! (x div 4096 mod 16), hexDigit ! (x div 256 mod 16),
              hexDigit ! (x div 16 mod 16), hexDigit ! (x mod 16)])"

fun zeroRun :: "nat list \<Rightarrow> nat" where
  "zeroRun [] = 0"
| "zeroRun (g # gs) = (if g = 0 then Suc (zeroRun gs) else 0)"

fun longestZeros :: "nat list \<Rightarrow> nat \<Rightarrow> nat \<times> nat \<Rightarrow> nat \<times> nat" where
  "longestZeros [] i best = best"
| "longestZeros (g # gs) i (e0, n) =
     longestZeros gs (Suc i)
       (if n < zeroRun (g # gs) then (i, zeroRun (g # gs)) else (e0, n))"

fun joinColon :: "string list \<Rightarrow> string" where
  "joinColon [] = []"
| "joinColon [s] = s"
| "joinColon (s # ss) = s @ '':'' @ joinColon ss"

definition ipv6String :: "IP \<Rightarrow> string" where
  "ipv6String p =
     (let gs = groups p; run = longestZeros gs 0 (0, 0) in
      if snd run \<le> 1 then joinColon (map appendHex gs)
      else joinColon (map appendHex (take (fst run) gs)) @ ''::''
           @ joinColon (map appendHex (drop (fst run + snd run) gs)))"

definition IP_String :: "IP \<Rightarrow> string" where
  "IP_String ip =
     (if length ip = 0 then ''<nil>''
      else if length (To4 ip) = IPv4len then
        ubtoa (To4 ip ! 0) @ ''.'' @ ubtoa (To4 ip ! 1) @ ''.''
        @ ubtoa (To4 ip ! 2) @ ''.'' @ ubtoa (To4 ip ! 3)
      else if length ip \<noteq> IPv6len then ''?'' @ hexString ip
      else ipv6String ip)"

section \<open>The DNS healthcheck: methods\<close>

text \<open>\<open>Initialize\<close>, dns.go lines 46 to 48: returns nil and assigns nothing.\<close>

definition Initialize :: "DNSHealthcheck \<Rightarrow> go_error option \<times> DNSHealthcheck" where
  "Initialize h = (None, h)"

text \<open>\<open>SetSource\<close>, dns.go lines 61 to 63.\<close>

definition SetSource :: "DNSHealthcheck \<Rightarrow> string \<Rightarrow> DNSHealthcheck" where
  "SetSource h source = h\<lparr>Config := (Config h)\<lparr>Base := (Base (Config h))\<lparr>Source := source\<rparr>\<rparr>\<rparr>"

text \<open>\<open>Summary\<close>, dns.go lines 66 to 76.\<close>

definition Summary :: "DNSHealthcheck \<Rightarrow> string" where
  "Summary h =
     (if Description (Base (Config h)) \<noteq> [] then
        Description (Base (Config h)) @ '' on '' @ Domain_name (Config h)
      else ''on '' @ Domain_name (Config h))"

text \<open>\<open>LogDebug\<close>, dns.go lines 87 to 91: one entry with the domain and the name.\<close>

definition LogDebug :: "DNSHealthcheck \<Rightarrow> string \<Rightarrow> DNSHealthcheck" where
  "LogDebug h message =
     h\<lparr>Logger := Logger h @
        [(DebugLevel, message,
          [(''domain'', Domain_name (Config h)), (''name'', Name (Base (Config h)))])]\<rparr>"

text \<open>
  \<open>verifyIPs\<close>, dns.go lines 100 to 124. \<open>IP_found\<close> is the inner loop over
  \<open>lookupIPs\<close>, which stops at the first equal address; \<open>notFound_loop\<close> is the outer
  loop over \<open>expectedIPs\<close>, appending to \<open>notFound\<close>; \<open>join_loop\<close> is the loop that
  builds the string \<open>l\<close>, starting from the empty string.
\<close>

fun IP_found :: "IP \<Rightarrow> IP list \<Rightarrow> bool" where
  "IP_found netIP [] = False"
| "IP_found netIP (respIP # rest) = (if IP_Equal netIP respIP then True else IP_found netIP rest)"

fun notFound_loop :: "IP list \<Rightarrow> IP list \<Rightarrow> string list \<Rightarrow> string list" where
  "notFound_loop [] lookupIPs notFound = notFound"
| "notFound_loop (netIP # rest) lookupIPs notFound =
     notFound_loop rest lookupIPs
       (if \<not> IP_found netIP lookupIPs then notFound @ [IP_String netIP] else notFound)"

fun join_loop :: "string list \<Rightarrow> string \<Rightarrow> string" where
  "join_loop [] l = l"
| "join_loop (notFound # rest) l = join_loop rest (l @ '','' @ notFound)"

definition verifyIPs :: "IP list \<Rightarrow> IP list \<Rightarrow> go_error option" where
  "verifyIPs expectedIPs lookupIPs =
     (let notFound = notFound_loop expectedIPs lookupIPs [] in
      if length notFound \<noteq> 0 then
        Some (fmt_Errorf (''Expected IP address not found. IPs found are '' @ join_loop notFound []))
      else None)"

text \<open>
  \<open>Execute\<close>, dns.go lines 127 to 138. \<open>net.LookupIP\<close> is the platform resolver: it is
  the parameter \<open>LookupIP\<close>, which answers a domain with an error or with a list of
  addresses.
\<close>

type_synonym resolver = "string \<Rightarrow> go_error + IP list"

definition Execute :: "resolver \<Rightarrow> DNSHealthcheck \<Rightarrow> go_error option \<times> DNSHealthcheck" where
  "Execute LookupIP h =
     (let h' = LogDebug h ''start executing healthcheck'' in
      case LookupIP (Domain_name (Config h')) of
        Inl err \<Rightarrow> (Some (errors_Wrapf err ''Fail to lookup IP for domain''), h')
      | Inr ips \<Rightarrow>
          (case verifyIPs (ExpectedIPs (Config h')) ips of
             Some err \<Rightarrow> (Some err, h')
           | None \<Rightarrow> (None, h')))"

text \<open>\<open>NewDNSHealthcheck\<close>, dns.go lines 141 to 146: the other fields keep Go's zero value.\<close>

definition NewDNSHealthcheck :: "log_entry list \<Rightarrow> DNSHealthcheckConfiguration \<Rightarrow> DNSHealthcheck" where
  "NewDNSHealthcheck logger config = \<lparr>Logger = logger, Config = config, URL = [], Tick = None\<rparr>"

section \<open>The HTTP handlers of one-off and periodic healthchecks\<close>

text \<open>
  The handlers receive a \<open>healthcheck.Healthcheck\<close>, an interface value. It is modelled
  by the methods the handlers call, over a state \<open>'s\<close> of the implementation:
  \<open>Initialize\<close> and \<open>Execute\<close> return the state they leave behind.
\<close>

record 's Healthcheck =
  Healthcheck_Name :: "'s \<Rightarrow> string"
  Healthcheck_OneOff :: "'s \<Rightarrow> bool"
  Healthcheck_Initialize :: "'s \<Rightarrow> go_error option \<times> 's"
  Healthcheck_Execute :: "'s \<Rightarrow> go_error option \<times> 's"

text \<open>
  Of the \<open>Component\<close>, the handlers use the logger and the healthcheck component (the
  registry of periodic checks), whose state is \<open>'r\<close>. \<open>AddCheck\<close> of that component
  is not part of the handlers' file and is a parameter of \<open>addCheck\<close>: it receives the
  registry and the healthcheck and returns an error or nil, with both as it leaves them.
\<close>

record 'r Component =
  Component_Logger :: "log_entry list"
  Component_healthcheck :: 'r

type_synonym ('r, 's) AddCheck = "'r \<Rightarrow> 's \<Rightarrow> go_error option \<times> 'r \<times> 's"

record BasicResponse =
  Message :: string

text \<open>What \<open>ec.JSON\<close> sends: the status code and the body.\<close>

record Response =
  Status :: nat
  Body :: BasicResponse

definition StatusCreated :: nat where
  "StatusCreated = 201"

definition StatusInternalServerError :: nat where
  "StatusInternalServerError = 500"

definition Logger_Info :: "'r Component \<Rightarrow> string \<Rightarrow> 'r Component" where
  "Logger_Info c msg = c\<lparr>Component_Logger := Component_Logger c @ [(InfoLevel, msg, [])]\<rparr>"

definition Logger_Error :: "'r Component \<Rightarrow> string \<Rightarrow> 'r Component" where
  "Logger_Error c msg = c\<lparr>Component_Logger := Component_Logger c @ [(ErrorLevel, msg, [])]\<rparr>"

definition JSON :: "nat \<Rightarrow> string \<Rightarrow> Response" where
  "JSON code msg = \<lparr>Status = code, Body = \<lparr>Message = msg\<rparr>\<rparr>"

text \<open>\<open>Component.addCheck\<close>, lines 18 to 26 of the handlers' file.\<close>

definition addCheck ::
  "('r, 's) AddCheck \<Rightarrow> 'r Component \<Rightarrow> 's Healthcheck \<Rightarrow> 's \<Rightarrow> Response \<times> 'r Component \<times> 's" where
  "addCheck AddCheck c hc s =
     (case AddCheck (Component_healthcheck c) s of
        (Some err, r, s') \<Rightarrow>
          (let msg = ''Fail to start the healthcheck: '' @ Error err;
               c' = Logger_Error (c\<lparr>Component_healthcheck := r\<rparr>) msg
           in (JSON StatusInternalServerError msg, c', s'))
      | (None, r, s') \<Rightarrow>
          (JSON StatusCreated ''Healthcheck successfully added'', c\<lparr>Component_healthcheck := r\<rparr>, s'))"

text \<open>\<open>Component.oneOff\<close>, lines 29 to 46 of the handlers' file.\<close>

definition oneOff ::
  "'r Component \<Rightarrow> 's Healthcheck \<Rightarrow> 's \<Rightarrow> Response \<times> 'r Component \<times> 's" where
  "oneOff c hc s =
     (let c0 = Logger_Info c (''Executing one-off healthcheck '' @ Healthcheck_Name hc s) in
      case Healthcheck_Initialize hc s of
        (Some err, s1) \<Rightarrow>
          (let msg = ''Fail to initialize one off healthcheck '' @ Healthcheck_Name hc s1
                     @ '': '' @ Error err
           in (JSON StatusInternalServerError msg, Logger_Error c0 msg, s1))
      | (None, s1) \<Rightarrow>
          (case Healthcheck_Execute hc s1 of
             (Some err, s2) \<Rightarrow>
               (let msg = ''Execution of one off healthcheck '' @ Healthcheck_Name hc s2
                          @ '' failed: '' @ Error err
                in (JSON StatusInternalServerError msg, Logger_Error c0 msg, s2))
           | (None, s2) \<Rightarrow>
               (let msg = ''One-off healthcheck '' @ Healthcheck_Name hc s2
                          @ '' successfully executed''
                in (JSON StatusCreated msg, Logger_Info c0 msg, s2))))"

text \<open>\<open>Component.handleCheck\<close>, lines 49 to 54 of the handlers' file.\<close>

definition handleCheck ::
  "('r, 's) AddCheck \<Rightarrow> 'r Component \<Rightarrow> 's Healthcheck \<Rightarrow> 's \<Rightarrow> Response \<times> 'r Component \<times> 's" where
  "handleCheck AddCheck c hc s =
     (if Healthcheck_OneOff hc s then oneOff c hc s else addCheck AddCheck c hc s)"

text \<open>
  Modelled from the spec: dns.go has no \<open>Name()\<close> and no \<open>OneOff()\<close> for the DNS
  healthcheck, which the interface needs. The spec gives a probe the identity \<open>name\<close> of
  its base configuration and the mode \<open>oneOff\<close> of its base configuration.
\<close>

definition DNSHealthcheck_Name :: "DNSHealthcheck \<Rightarrow> string" where
  "DNSHealthcheck_Name h = Name (Base (Config h))"

definition DNSHealthcheck_OneOff :: "DNSHealthcheck \<Rightarrow> bool" where
  "DNSHealthcheck_OneOff h = OneOff (Base (Config h))"

text \<open>The DNS healthcheck as the interface value that the route of dns checks passes on.\<close>

definition DNSHealthcheck_iface :: "resolver \<Rightarrow> DNSHealthcheck Healthcheck" where
  "DNSHealthcheck_iface LookupIP =
     \<lparr>Healthcheck_Name = DNSHealthcheck_Name,
      Healthcheck_OneOff = DNSHealthcheck_OneOff,
      Healthcheck_Initialize = Initialize,
      Healthcheck_Execute = Execute LookupIP\<rparr>"

section \<open>The spec's list format and example inputs\<close>

text \<open>
  The spec's words for the list in the error of a mismatch are "comma-joined":
  \<open>comma_joined\<close> puts one comma between consecutive strings, as \<open>strings.Join\<close> does.
  It is not taken from the source: the string that \<open>join_loop\<close> builds is compared
  with it.
\<close>

fun comma_joined :: "string list \<Rightarrow> string" where
  "comma_joined [] = []"
| "comma_joined [s] = s"
| "comma_joined (s # ss) = s @ '','' @ comma_joined ss"

text \<open>A periodic configuration whose interval is exactly two seconds.\<close>

definition boundary_config :: DNSHealthcheckConfiguration where
  "boundary_config =
     \<lparr>Base = \<lparr>Name = ''dns-check'', Description = [], Interval = 2 * Second, OneOff = False,
              Source = []\<rparr>,
      ExpectedIPs = [], Domain_name = ''example.com''\<rparr>"

text \<open>A one-off DNS healthcheck of example.com with the given expected addresses.\<close>

definition example_probe :: "IP list \<Rightarrow> DNSHealthcheck" where
  "example_probe expected =
     NewDNSHealthcheck []
       \<lparr>Base = \<lparr>Name = ''dns-check'', Description = [], Interval = 0, OneOff = True, Source = []\<rparr>,
        ExpectedIPs = expected, Domain_name = ''example.com''\<rparr>"

text \<open>
  A one-off healthcheck whose state is the list of the calls it has received, with fixed
  results for \<open>Initialize\<close> and \<open>Execute\<close>; an \<open>AddCheck\<close> that registers whatever
  it is given; and a component with an empty log and an empty registry.
\<close>

datatype call = Call_Initialize | Call_Execute

definition recording_probe :: "go_error option \<Rightarrow> go_error option \<Rightarrow> call list Healthcheck" where
  "recording_probe init_result exec_result =
     \<lparr>Healthcheck_Name = (\<lambda>calls. ''probe''),
      Healthcheck_OneOff = (\<lambda>calls. True),
      Healthcheck_Initialize = (\<lambda>calls. (init_result, calls @ [Call_Initialize])),
      Healthcheck_Execute = (\<lambda>calls. (exec_result, calls @ [Call_Execute]))\<rparr>"

definition registering_AddCheck :: "(string list, call list) AddCheck" where
  "registering_AddCheck registry calls = (None, ''probe'' # registry, calls)"

definition empty_Component :: "string list Component" where
  "empty_Component = \<lparr>Component_Logger = [], Component_healthcheck = []\<rparr>"

section \<open>Facts about the loops of verifyIPs and about Execute\<close>

lemma sint_two_seconds: "sint (2 * Second :: Duration) = 2000000000"
  by (simp add: Second_def)

lemma IP_found_iff:
  "IP_found netIP lookupIPs \<longleftrightarrow> (\<exists>respIP \<in> set lookupIPs. IP_Equal netIP respIP)"
  by (induction lookupIPs) auto

lemma notFound_loop_eq:
  "notFound_loop expectedIPs lookupIPs notFound =
     notFound @ map IP_String (filter (\<lambda>netIP. \<not> IP_found netIP lookupIPs) expectedIPs)"
  by (induction expectedIPs arbitrary: notFound) auto

lemma join_loop_Cons:
  "join_loop (s # ss) l = l @ '','' @ comma_joined (s # ss)"
proof (induction ss arbitrary: l s)
  case Nil
  show ?case by simp
next
  case (Cons a ss)
  have "join_loop (s # a # ss) l = join_loop (a # ss) (l @ '','' @ s)"
    by simp
  also have "\<dots> = (l @ '','' @ s) @ '','' @ comma_joined (a # ss)"
    by (rule Cons.IH)
  also have "\<dots> = l @ '','' @ comma_joined (s # a # ss)"
    by simp
  finally show ?case .
qed

lemma join_loop_comma_joined:
  assumes "ss \<noteq> []"
  shows "join_loop ss l = l @ '','' @ comma_joined ss"
proof -
  from assms obtain s rest where "ss = s # rest"
    by (cases ss) auto
  then show ?thesis
    by (simp only: join_loop_Cons)
qed

lemma verifyIPs_None_iff:
  "verifyIPs expectedIPs lookupIPs = None \<longleftrightarrow>
     (\<forall>netIP \<in> set expectedIPs. IP_found netIP lookupIPs)"
  by (auto simp: verifyIPs_def Let_def notFound_loop_eq filter_empty_conv)

lemma verifyIPs_Some:
  assumes "verifyIPs expectedIPs lookupIPs \<noteq> None"
  shows "verifyIPs expectedIPs lookupIPs =
     Some (fmt_Errorf (''Expected IP address not found. IPs found are '' @ '','' @
       comma_joined (map IP_String (filter (\<lambda>netIP. \<not> IP_found netIP lookupIPs) expectedIPs))))"
proof -
  let ?nf = "map IP_String (filter (\<lambda>netIP. \<not> IP_found netIP lookupIPs) expectedIPs)"
  have nf: "notFound_loop expectedIPs lookupIPs [] = ?nf"
    by (simp add: notFound_loop_eq)
  from assms have ne: "?nf \<noteq> []"
    unfolding verifyIPs_def Let_def nf by (simp split: if_splits)
  have "join_loop ?nf [] = '','' @ comma_joined ?nf"
    using join_loop_comma_joined [OF ne, of "[]"] by simp
  with ne show ?thesis
    unfolding verifyIPs_def Let_def nf by simp
qed

lemma Execute_Inr:
  "LookupIP (Domain_name (Config h)) = Inr ips \<Longrightarrow>
   fst (Execute LookupIP h) = verifyIPs (ExpectedIPs (Config h)) ips"
  by (simp add: Execute_def LogDebug_def Let_def split: option.splits)

lemma Execute_Inl:
  "LookupIP (Domain_name (Config h)) = Inl err \<Longrightarrow>
   fst (Execute LookupIP h) = Some (errors_Wrapf err ''Fail to lookup IP for domain'')"
  by (simp add: Execute_def LogDebug_def Let_def)

lemma IP_Equal_v4_mapped:
  "IP_Equal [a, b, c, d] (v4InV6Prefix @ [a, b, c, d])"
  "IP_Equal (v4InV6Prefix @ [a, b, c, d]) [a, b, c, d]"
  by (simp_all add: IP_Equal_def v4InV6Prefix_def IPv4len_def IPv6len_def)

text \<open>
  The error of a mismatch, for every probe: the fixed text, a comma, and the comma-joined
  strings of the expected addresses equal to no resolved address, in the order of
  \<open>ExpectedIPs\<close>. Because of the comma in front, it is never the fixed text followed by
  the comma-joined list alone.
\<close>

lemma Execute_mismatch_message:
  assumes "LookupIP (Domain_name (Config h)) = Inr ips"
    and "fst (Execute LookupIP h) \<noteq> None"
  shows "fst (Execute LookupIP h) =
           Some (fmt_Errorf (''Expected IP address not found. IPs found are '' @ '','' @
             comma_joined (map IP_String
               (filter (\<lambda>e. \<not> (\<exists>r \<in> set ips. IP_Equal e r)) (ExpectedIPs (Config h))))))"
proof -
  from assms have "verifyIPs (ExpectedIPs (Config h)) ips \<noteq> None"
    by (simp add: Execute_Inr)
  from verifyIPs_Some [OF this] assms(1) show ?thesis
    by (simp add: Execute_Inr IP_found_iff)
qed

lemma Execute_mismatch_not_comma_joined:
  assumes "LookupIP (Domain_name (Config h)) = Inr ips"
    and "fst (Execute LookupIP h) \<noteq> None"
  shows "fst (Execute LookupIP h) \<noteq>
           Some (fmt_Errorf (''Expected IP address not found. IPs found are '' @
             comma_joined (map IP_String
               (filter (\<lambda>e. \<not> (\<exists>r \<in> set ips. IP_Equal e r)) (ExpectedIPs (Config h))))))"
proof -
  let ?cj = "comma_joined (map IP_String
               (filter (\<lambda>e. \<not> (\<exists>r \<in> set ips. IP_Equal e r)) (ExpectedIPs (Config h))))"
  have "length ('','' @ ?cj) \<noteq> length ?cj" by simp
  then have "'','' @ ?cj \<noteq> ?cj" by metis
  then show ?thesis
    unfolding Execute_mismatch_message [OF assms] by simp
qed

section \<open>The claims\<close>

text \<open>
  C1. \<open>Execute\<close> succeeds exactly when the resolver answers with addresses and every
  expected address is equal, in the sense of \<open>net.IP.Equal\<close>, to one of them. The
  condition reads both lists only through their sets of elements, so neither order nor
  further resolved addresses matter; it holds for an empty list of expected addresses
  too. Equality is that of addresses: the four bytes of an IPv4 address and its 16-byte
  IPv4-mapped form are equal, in both directions.
\<close>

theorem Execute_succeeds_iff_expected_among_resolved:
  "(fst (Execute LookupIP h) = None \<longleftrightarrow>
      (\<exists>ips. LookupIP (Domain_name (Config h)) = Inr ips
         \<and> (\<forall>e \<in> set (ExpectedIPs (Config h)). \<exists>r \<in> set ips. IP_Equal e r)))
   \<and> IP_Equal [a, b, c, d] (v4InV6Prefix @ [a, b, c, d])
   \<and> IP_Equal (v4InV6Prefix @ [a, b, c, d]) [a, b, c, d]"
proof -
  have "fst (Execute LookupIP h) = None \<longleftrightarrow>
      (\<exists>ips. LookupIP (Domain_name (Config h)) = Inr ips
         \<and> (\<forall>e \<in> set (ExpectedIPs (Config h)). \<exists>r \<in> set ips. IP_Equal e r))"
  proof (cases "LookupIP (Domain_name (Config h))")
    case (Inl err)
    then show ?thesis by (simp add: Execute_Inl)
  next
    case (Inr ips)
    then show ?thesis by (simp add: Execute_Inr verifyIPs_None_iff IP_found_iff)
  qed
  then show ?thesis by (simp add: IP_Equal_v4_mapped)
qed

text \<open>
  The spec's example, with one resolved address in its IPv4-mapped form: expected
  10.0.0.1 and 10.0.0.2, resolved 10.0.0.2, ::ffff:10.0.0.1 and 10.0.0.3. And a probe
  that fails: expected 10.0.0.1 and 10.0.0.5, resolved 10.0.0.1.
\<close>

theorem Execute_succeeds_iff_expected_among_resolved_witness:
  "IP_Equal [10, 0, 0, 1] (v4InV6Prefix @ [10, 0, 0, 1])
   \<and> IP_Equal [10, 0, 0, 2] [10, 0, 0, 2]
   \<and> fst (Execute (\<lambda>d. Inr [[10, 0, 0, 2], v4InV6Prefix @ [10, 0, 0, 1], [10, 0, 0, 3]])
        (example_probe [[10, 0, 0, 1], [10, 0, 0, 2]])) = None
   \<and> fst (Execute (\<lambda>d. Inr [[10, 0, 0, 1]]) (example_probe [[10, 0, 0, 1], [10, 0, 0, 5]])) \<noteq> None"
  using Execute_succeeds_iff_expected_among_resolved
      [of "\<lambda>d. Inr [[10, 0, 0, 2], v4InV6Prefix @ [10, 0, 0, 1], [10, 0, 0, 3]]"
          "example_probe [[10, 0, 0, 1], [10, 0, 0, 2]]" 10 0 0 1]
    Execute_succeeds_iff_expected_among_resolved
      [of "\<lambda>d. Inr [[10, 0, 0, 1]]" "example_probe [[10, 0, 0, 1], [10, 0, 0, 5]]" 10 0 0 1]
  by (simp add: example_probe_def NewDNSHealthcheck_def IP_Equal_def v4InV6Prefix_def
      IPv4len_def IPv6len_def)

text \<open>
  C2. For a periodic configuration with a name and a domain, \<open>Validate\<close> fails when the
  interval is below two seconds (2000000000 nanoseconds, read as a signed number) and
  succeeds from two seconds on; at exactly two seconds it succeeds.
\<close>

theorem Validate_periodic_interval_floor:
  assumes "Name (Base config) \<noteq> []" and "Domain_name config \<noteq> []"
    and "\<not> OneOff (Base config)"
  shows "(sint (Interval (Base config)) < 2000000000 \<longrightarrow> fst (Validate config) \<noteq> None)
       \<and> (2000000000 \<le> sint (Interval (Base config)) \<longrightarrow> fst (Validate config) = None)
       \<and> (Interval (Base config) = 2 * Second \<longrightarrow> fst (Validate config) = None)"
  using assms by (simp add: Validate_def sint_two_seconds)

theorem Validate_periodic_interval_floor_witness:
  "Name (Base boundary_config) \<noteq> [] \<and> Domain_name boundary_config \<noteq> []
   \<and> \<not> OneOff (Base boundary_config)
   \<and> 2000000000 \<le> sint (Interval (Base boundary_config))
   \<and> Interval (Base boundary_config) = 2 * Second
   \<and> fst (Validate boundary_config) = None"
proof -
  have n: "Name (Base boundary_config) \<noteq> []" by (simp add: boundary_config_def)
  have d: "Domain_name boundary_config \<noteq> []" by (simp add: boundary_config_def)
  have p: "\<not> OneOff (Base boundary_config)" by (simp add: boundary_config_def)
  have i: "Interval (Base boundary_config) = 2 * Second" by (simp add: boundary_config_def)
  have s: "2000000000 \<le> sint (Interval (Base boundary_config))"
    by (simp add: i sint_two_seconds)
  from Validate_periodic_interval_floor [OF n d p] i
  have "fst (Validate boundary_config) = None" by blast
  with n d p i s show ?thesis by blast
qed

text \<open>
  C3. The spec says: when the resolver answers and the expected addresses are not all found,
  the error of \<open>Execute\<close> lists the expected addresses that were not found, comma-joined,
  in the order of \<open>ExpectedIPs\<close>. The code lists those addresses in that order, but the
  loop of \<open>verifyIPs\<close> that builds the string \<open>l\<close> starts from the empty string and
  puts a comma in front of every address, the first one too. With the expected addresses
  10.0.0.1 and 10.0.0.5 and the resolved address 10.0.0.1, the comma-joined list of the
  addresses not found is \<open>10.0.0.5\<close>, and the error of \<open>Execute\<close> ends with
  \<open>,10.0.0.5\<close>: it is not the fixed text followed by the comma-joined list.
  \<open>Execute_mismatch_not_comma_joined\<close> shows the same for every probe that fails so.
\<close>

theorem Execute_mismatch_leading_comma:
  "fst (Execute (\<lambda>d. Inr [[10, 0, 0, 1]]) (example_probe [[10, 0, 0, 1], [10, 0, 0, 5]])) =
     Some (fmt_Errorf ''Expected IP address not found. IPs found are ,10.0.0.5'')
   \<and> comma_joined (map IP_String [[10, 0, 0, 5]]) = ''10.0.0.5''
   \<and> fst (Execute (\<lambda>d. Inr [[10, 0, 0, 1]]) (example_probe [[10, 0, 0, 1], [10, 0, 0, 5]])) \<noteq>
     Some (fmt_Errorf (''Expected IP address not found. IPs found are ''
                       @ comma_joined (map IP_String [[10, 0, 0, 5]])))"
  by (simp add: Execute_def LogDebug_def example_probe_def NewDNSHealthcheck_def verifyIPs_def
      IP_Equal_def IP_String_def To4_def IPv4len_def ubtoa_def hexDigit_def)

text \<open>
  C4. \<open>Validate\<close> returns an error exactly when the name is empty, or the domain is
  empty, or the configuration is periodic with an interval below two seconds. The message
  of the error names the field: the name, the domain or the interval, in the order of the
  checks. The configuration is returned as it was received.
\<close>

theorem Validate_error_iff:
  "(fst (Validate config) \<noteq> None \<longleftrightarrow>
      Name (Base config) = [] \<or> Domain_name config = []
      \<or> (\<not> OneOff (Base config) \<and> sint (Interval (Base config)) < 2000000000))
   \<and> (Name (Base config) = [] \<longrightarrow>
        fst (Validate config) = Some (errors_New ''The healthcheck name is missing''))
   \<and> (Name (Base config) \<noteq> [] \<and> Domain_name config = [] \<longrightarrow>
        fst (Validate config) = Some (errors_New ''The healthcheck domain is missing''))
   \<and> (Name (Base config) \<noteq> [] \<and> Domain_name config \<noteq> [] \<and> \<not> OneOff (Base config)
        \<and> sint (Interval (Base config)) < 2000000000 \<longrightarrow>
        fst (Validate config) =
          Some (errors_New ''The healthcheck interval should be greater than 2 second''))
   \<and> snd (Validate config) = config"
  by (simp add: Validate_def sint_two_seconds)

theorem Validate_error_iff_witness:
  "fst (Validate (boundary_config\<lparr>Domain_name := []\<rparr>)) =
     Some (errors_New ''The healthcheck domain is missing'')
   \<and> snd (Validate (boundary_config\<lparr>Domain_name := []\<rparr>)) = boundary_config\<lparr>Domain_name := []\<rparr>"
  using Validate_error_iff [of "boundary_config\<lparr>Domain_name := []\<rparr>"]
  by (simp add: boundary_config_def)

text \<open>
  C5. For a one-off configuration with a name and a domain, \<open>Validate\<close> succeeds
  whatever the interval is: putting any value \<open>i\<close> in the field, zero and negative
  values included, gives success.
\<close>

theorem Validate_oneOff_ignores_interval:
  assumes "OneOff (Base config)" and "Name (Base config) \<noteq> []" and "Domain_name config \<noteq> []"
  shows "Validate (config\<lparr>Base := (Base config)\<lparr>Interval := i\<rparr>\<rparr>) =
           (None, config\<lparr>Base := (Base config)\<lparr>Interval := i\<rparr>\<rparr>)
       \<and> fst (Validate config) = None"
  using assms by (simp add: Validate_def)

theorem Validate_oneOff_ignores_interval_witness:
  "Interval (Base (Config (example_probe []))) = 0
   \<and> fst (Validate (Config (example_probe []))) = None
   \<and> fst (Validate ((Config (example_probe []))
            \<lparr>Base := (Base (Config (example_probe [])))\<lparr>Interval := - 1\<rparr>\<rparr>)) = None"
proof -
  let ?c = "Config (example_probe [])"
  have o: "OneOff (Base ?c)" by (simp add: example_probe_def NewDNSHealthcheck_def)
  have n: "Name (Base ?c) \<noteq> []" by (simp add: example_probe_def NewDNSHealthcheck_def)
  have d: "Domain_name ?c \<noteq> []" by (simp add: example_probe_def NewDNSHealthcheck_def)
  have z: "Interval (Base ?c) = 0" by (simp add: example_probe_def NewDNSHealthcheck_def)
  from Validate_oneOff_ignores_interval [OF o n d, of "- 1"] z show ?thesis by simp
qed

text \<open>
  C6. With an empty list of expected addresses, \<open>Execute\<close> succeeds whenever the
  resolver answers with addresses, whichever and however many they are.
\<close>

theorem Execute_empty_expected_succeeds:
  assumes "ExpectedIPs (Config h) = []"
    and "LookupIP (Domain_name (Config h)) = Inr ips"
  shows "fst (Execute LookupIP h) = None"
  using assms by (simp add: Execute_Inr verifyIPs_def)

theorem Execute_empty_expected_succeeds_witness:
  "ExpectedIPs (Config (example_probe [])) = []
   \<and> fst (Execute (\<lambda>d. Inr [[10, 0, 0, 9], [192, 168, 0, 1]]) (example_probe [])) = None
   \<and> fst (Execute (\<lambda>d. Inr []) (example_probe [])) = None"
proof -
  have e: "ExpectedIPs (Config (example_probe [])) = []"
    by (simp add: example_probe_def NewDNSHealthcheck_def)
  have "fst (Execute (\<lambda>d. Inr [[10, 0, 0, 9], [192, 168, 0, 1]]) (example_probe [])) = None"
    by (rule Execute_empty_expected_succeeds [OF e]) simp
  moreover have "fst (Execute (\<lambda>d. Inr []) (example_probe [])) = None"
    by (rule Execute_empty_expected_succeeds [OF e]) simp
  ultimately show ?thesis using e by blast
qed

text \<open>
  C7. When the resolver answers with an error, \<open>Execute\<close> returns that error wrapped
  with the message "Fail to lookup IP for domain", whose text is the message, a colon
  and the text of the lookup error. The expected addresses play no part: the result is
  the same whatever \<open>ExpectedIPs\<close> holds.
\<close>

theorem Execute_lookup_failure_wrapped:
  assumes "LookupIP (Domain_name (Config h)) = Inl err"
  shows "fst (Execute LookupIP h) = Some (errors_Wrapf err ''Fail to lookup IP for domain'')
       \<and> Error (errors_Wrapf err ''Fail to lookup IP for domain'') =
           ''Fail to lookup IP for domain: '' @ Error err
       \<and> (\<forall>expected. fst (Execute LookupIP (h\<lparr>Config := (Config h)\<lparr>ExpectedIPs := expected\<rparr>\<rparr>)) =
             Some (errors_Wrapf err ''Fail to lookup IP for domain''))"
  using assms by (simp add: Execute_Inl)

theorem Execute_lookup_failure_wrapped_witness:
  "fst (Execute (\<lambda>d. Inl (net_DNSError ''lookup example.com: no such host''))
         (example_probe [[10, 0, 0, 1]])) =
     Some (errors_Wrapf (net_DNSError ''lookup example.com: no such host'')
             ''Fail to lookup IP for domain'')
   \<and> Error (errors_Wrapf (net_DNSError ''lookup example.com: no such host'')
             ''Fail to lookup IP for domain'') =
       ''Fail to lookup IP for domain: lookup example.com: no such host''"
  using Execute_lookup_failure_wrapped
    [of "\<lambda>d. Inl (net_DNSError ''lookup example.com: no such host'')"
        "example_probe [[10, 0, 0, 1]]" "net_DNSError ''lookup example.com: no such host''"]
  by simp

text \<open>
  C8. For a healthcheck with \<open>OneOff() = true\<close>, \<open>handleCheck\<close> gives a result \<open>R\<close>
  that does not depend on \<open>AddCheck\<close> and leaves the registry of the component as it
  was. With \<open>i\<close> the outcome of \<open>Initialize\<close> and \<open>x\<close> the outcome of \<open>Execute\<close> on
  the state that \<open>Initialize\<close> left: if \<open>Initialize\<close> fails, the response is the
  message "Fail to initialize one off healthcheck ..." and the healthcheck is left in the
  state after \<open>Initialize\<close> alone; if \<open>Execute\<close> fails, the response is the message
  "Execution of one off healthcheck ... failed: ..."; the status 201 is sent exactly when
  both returned nil, with the healthcheck in the state after \<open>Execute\<close>. The two failure
  messages differ for all names and error texts.
\<close>

theorem handleCheck_oneOff:
  assumes "Healthcheck_OneOff hc s"
  shows "let R = handleCheck AddCheck c hc s;
             i = Healthcheck_Initialize hc s;
             x = Healthcheck_Execute hc (snd i)
         in handleCheck AddCheck' c hc s = R
          \<and> Component_healthcheck (fst (snd R)) = Component_healthcheck c
          \<and> (\<forall>err. fst i = Some err \<longrightarrow>
                fst R = JSON StatusInternalServerError
                          (''Fail to initialize one off healthcheck '' @ Healthcheck_Name hc (snd i)
                           @ '': '' @ Error err)
                \<and> snd (snd R) = snd i)
          \<and> (\<forall>err. fst i = None \<and> fst x = Some err \<longrightarrow>
                fst R = JSON StatusInternalServerError
                          (''Execution of one off healthcheck '' @ Healthcheck_Name hc (snd x)
                           @ '' failed: '' @ Error err)
                \<and> snd (snd R) = snd x)
          \<and> (fst i = None \<and> fst x = None \<longrightarrow>
                fst R = JSON StatusCreated
                          (''One-off healthcheck '' @ Healthcheck_Name hc (snd x)
                           @ '' successfully executed'')
                \<and> snd (snd R) = snd x)
          \<and> (Status (fst R) = StatusCreated \<longleftrightarrow> fst i = None \<and> fst x = None)
          \<and> (\<forall>n1 e1 n2 e2.
                ''Fail to initialize one off healthcheck '' @ n1 @ '': '' @ e1 \<noteq>
                ''Execution of one off healthcheck '' @ n2 @ '' failed: '' @ e2)"
  using assms
  by (cases "Healthcheck_Initialize hc s";
      cases "Healthcheck_Execute hc (snd (Healthcheck_Initialize hc s))")
     (auto simp: handleCheck_def oneOff_def Let_def JSON_def Logger_Info_def Logger_Error_def
        StatusCreated_def StatusInternalServerError_def split: option.splits)

text \<open>
  A healthcheck that records its calls and an \<open>AddCheck\<close> that would register it: when
  \<open>Initialize\<close> fails the only call is \<open>Initialize\<close>; when both succeed the calls are
  \<open>Initialize\<close>, then \<open>Execute\<close>; the registry stays empty.
\<close>

theorem handleCheck_oneOff_witness:
  "Healthcheck_OneOff (recording_probe (Some (errors_New ''no target'')) None) []
   \<and> handleCheck registering_AddCheck empty_Component
        (recording_probe (Some (errors_New ''no target'')) None) [] =
       (JSON StatusInternalServerError ''Fail to initialize one off healthcheck probe: no target'',
        \<lparr>Component_Logger =
           [(InfoLevel, ''Executing one-off healthcheck probe'', []),
            (ErrorLevel, ''Fail to initialize one off healthcheck probe: no target'', [])],
         Component_healthcheck = []\<rparr>,
        [Call_Initialize])
   \<and> handleCheck registering_AddCheck empty_Component (recording_probe None None) [] =
       (JSON StatusCreated ''One-off healthcheck probe successfully executed'',
        \<lparr>Component_Logger =
           [(InfoLevel, ''Executing one-off healthcheck probe'', []),
            (InfoLevel, ''One-off healthcheck probe successfully executed'', [])],
         Component_healthcheck = []\<rparr>,
        [Call_Initialize, Call_Execute])"
proof -
  let ?f = "recording_probe (Some (errors_New ''no target'')) None"
  let ?g = "recording_probe None None"
  have o: "Healthcheck_OneOff ?f []" by (simp add: recording_probe_def)
  have p: "Healthcheck_OneOff ?g []" by (simp add: recording_probe_def)
  from handleCheck_oneOff [OF o, of registering_AddCheck empty_Component registering_AddCheck]
    handleCheck_oneOff [OF p, of registering_AddCheck empty_Component registering_AddCheck]
  show ?thesis using o
    by (simp add: Let_def recording_probe_def handleCheck_def oneOff_def empty_Component_def
        Logger_Info_def Logger_Error_def)
qed

text \<open>
  C9. \<open>Initialize\<close> of the DNS healthcheck returns nil and the healthcheck itself. So
  the response of \<open>oneOff\<close> to a DNS healthcheck is the one of a failed execution or the
  one of a success, as \<open>Execute\<close> decides, and its message is never an initialization
  failure.
\<close>

theorem Initialize_never_fails:
  "Initialize h = (None, h)
   \<and> fst (oneOff c (DNSHealthcheck_iface LookupIP) h) =
       (case fst (Execute LookupIP h) of
          Some err \<Rightarrow>
            JSON StatusInternalServerError
              (''Execution of one off healthcheck '' @ Name (Base (Config h)) @ '' failed: ''
               @ Error err)
        | None \<Rightarrow>
            JSON StatusCreated
              (''One-off healthcheck '' @ Name (Base (Config h)) @ '' successfully executed''))
   \<and> (\<forall>n e. Message (Body (fst (oneOff c (DNSHealthcheck_iface LookupIP) h))) \<noteq>
          ''Fail to initialize one off healthcheck '' @ n @ '': '' @ e)"
  by (simp add: Initialize_def oneOff_def DNSHealthcheck_iface_def DNSHealthcheck_Name_def
      Execute_def LogDebug_def JSON_def Let_def split: sum.splits option.splits)

text \<open>
  C10. \<open>SetSource\<close> puts the tag in the \<open>Source\<close> field of the base configuration and
  changes no other field of the configuration or of the healthcheck.
\<close>

theorem SetSource_frame:
  "Source (Base (Config (SetSource h tag))) = tag
   \<and> Name (Base (Config (SetSource h tag))) = Name (Base (Config h))
   \<and> Description (Base (Config (SetSource h tag))) = Description (Base (Config h))
   \<and> Interval (Base (Config (SetSource h tag))) = Interval (Base (Config h))
   \<and> OneOff (Base (Config (SetSource h tag))) = OneOff (Base (Config h))
   \<and> Domain_name (Config (SetSource h tag)) = Domain_name (Config h)
   \<and> ExpectedIPs (Config (SetSource h tag)) = ExpectedIPs (Config h)
   \<and> Logger (SetSource h tag) = Logger h
   \<and> URL (SetSource h tag) = URL h
   \<and> Tick (SetSource h tag) = Tick h"
  by (simp add: SetSource_def)

end
